theory Spec2Isabelle
  imports Complex_Main "HOL-Library.AList" "HOL-Library.Monad_Syntax"
begin

section \<open>Shifty: a tweening engine (src/shifty.core.js)\<close>

subsection \<open>JavaScript values\<close>

text \<open>
  The engine computes with JavaScript numbers. They are modelled as exact reals extended
  with \<open>NaN\<close> and the two infinities; rounding and the sign of zero are not modelled
  (a zero divisor counts as \<open>+0\<close>). Besides numbers, the fields the engine reads can
  hold \<open>undefined\<close> (a property or argument that was never given) and \<open>null\<close>.
  Arithmetic coerces its operands with \<open>ToNumber\<close>, as the language does.
\<close>

datatype number = Num real | NaN | PosInf | NegInf

datatype jsval = Undefined | Null | Number number

fun to_number :: "jsval \<Rightarrow> number" where
  "to_number Undefined = NaN"
| "to_number Null = Num 0"
| "to_number (Number n) = n"

fun num_neg :: "number \<Rightarrow> number" where
  "num_neg (Num a) = Num (- a)"
| "num_neg NaN = NaN"
| "num_neg PosInf = NegInf"
| "num_neg NegInf = PosInf"

fun num_add :: "number \<Rightarrow> number \<Rightarrow> number" where
  "num_add NaN _ = NaN"
| "num_add _ NaN = NaN"
| "num_add (Num a) (Num b) = Num (a + b)"
| "num_add PosInf NegInf = NaN"
| "num_add NegInf PosInf = NaN"
| "num_add PosInf _ = PosInf"
| "num_add _ PosInf = PosInf"
| "num_add NegInf _ = NegInf"
| "num_add _ NegInf = NegInf"

fun num_mul :: "number \<Rightarrow> number \<Rightarrow> number" where
  "num_mul NaN _ = NaN"
| "num_mul _ NaN = NaN"
| "num_mul (Num a) (Num b) = Num (a * b)"
| "num_mul PosInf (Num b) = (if b = 0 then NaN else if 0 < b then PosInf else NegInf)"
| "num_mul NegInf (Num b) = (if b = 0 then NaN else if 0 < b then NegInf else PosInf)"
| "num_mul (Num a) PosInf = (if a = 0 then NaN else if 0 < a then PosInf else NegInf)"
| "num_mul (Num a) NegInf = (if a = 0 then NaN else if 0 < a then NegInf else PosInf)"
| "num_mul PosInf PosInf = PosInf"
| "num_mul NegInf NegInf = PosInf"
| "num_mul PosInf NegInf = NegInf"
| "num_mul NegInf PosInf = NegInf"

fun num_div :: "number \<Rightarrow> number \<Rightarrow> number" where
  "num_div NaN _ = NaN"
| "num_div _ NaN = NaN"
| "num_div (Num a) (Num b) =
     (if b = 0 then (if a = 0 then NaN else if 0 < a then PosInf else NegInf)
      else Num (a / b))"
| "num_div (Num a) PosInf = Num 0"
| "num_div (Num a) NegInf = Num 0"
| "num_div PosInf (Num b) = (if 0 \<le> b then PosInf else NegInf)"
| "num_div NegInf (Num b) = (if 0 \<le> b then NegInf else PosInf)"
| "num_div _ _ = NaN"

fun num_lt :: "number \<Rightarrow> number \<Rightarrow> bool" where
  "num_lt NaN _ = False"
| "num_lt _ NaN = False"
| "num_lt (Num a) (Num b) = (a < b)"
| "num_lt _ NegInf = False"
| "num_lt NegInf _ = True"
| "num_lt PosInf _ = False"
| "num_lt _ PosInf = True"

definition js_add :: "jsval \<Rightarrow> jsval \<Rightarrow> jsval" where
  "js_add a b = Number (num_add (to_number a) (to_number b))"

definition js_sub :: "jsval \<Rightarrow> jsval \<Rightarrow> jsval" where
  "js_sub a b = Number (num_add (to_number a) (num_neg (to_number b)))"

definition js_mul :: "jsval \<Rightarrow> jsval \<Rightarrow> jsval" where
  "js_mul a b = Number (num_mul (to_number a) (to_number b))"

definition js_div :: "jsval \<Rightarrow> jsval \<Rightarrow> jsval" where
  "js_div a b = Number (num_div (to_number a) (to_number b))"

definition js_lt :: "jsval \<Rightarrow> jsval \<Rightarrow> bool" where
  "js_lt a b = num_lt (to_number a) (to_number b)"

text \<open>Truthiness, for \<open>a || b\<close> on values: \<open>undefined\<close>, \<open>null\<close>, \<open>0\<close> and \<open>NaN\<close>
  are falsy.\<close>

fun truthy :: "jsval \<Rightarrow> bool" where
  "truthy Undefined = False"
| "truthy Null = False"
| "truthy (Number (Num a)) = (a \<noteq> 0)"
| "truthy (Number NaN) = False"
| "truthy (Number PosInf) = True"
| "truthy (Number NegInf) = True"

definition js_or :: "jsval \<Rightarrow> jsval \<Rightarrow> jsval" where
  "js_or a b = (if truthy a then a else b)"

text \<open>\<open>now()\<close> returns the clock as an integer number of milliseconds; the clock is an
  input of every operation that reads it.\<close>

definition time_val :: "int \<Rightarrow> jsval" where
  "time_val t = Number (Num (of_int t))"

subsection \<open>Objects and the heap\<close>

text \<open>
  An object is the list of its own properties in insertion order; the heap maps a
  reference to the object it denotes, so that two references to one object see each
  other's writes. \<open>nextAddr\<close> of the world (below) is the next unused reference. Reading
  a property the object lacks gives \<open>undefined\<close>. Writing updates the property in place
  or appends it.
\<close>

type_synonym obj = "(string \<times> jsval) list"
type_synonym addr = nat
type_synonym heap = "addr \<Rightarrow> obj"

definition hasOwnProperty :: "(string \<times> 'v) list \<Rightarrow> string \<Rightarrow> bool" where
  "hasOwnProperty ob prop = (map_of ob prop \<noteq> None)"

definition get_prop :: "obj \<Rightarrow> string \<Rightarrow> jsval" where
  "get_prop ob prop = (case map_of ob prop of None \<Rightarrow> Undefined | Some v \<Rightarrow> v)"

definition set_prop :: "string \<Rightarrow> jsval \<Rightarrow> obj \<Rightarrow> obj" where
  "set_prop prop v ob = AList.update prop v ob"

text \<open>
  \<open>hasOwnProperty\<close> above is the method every object inherits. The calls
  \<open>obj.hasOwnProperty(prop)\<close> of lines 33, 69, 284 and 294 reach it unless the object
  has an own property of that name, which would be called instead, and a value of this
  model is not a function: the call then raises a \<open>TypeError\<close>. An object is \<open>plain\<close>
  when it has no such property; what is proved for every heap, registry or hook object
  is proved for plain ones.
\<close>

definition plain :: "(string \<times> 'v) list \<Rightarrow> bool" where
  "plain ob = (map_of ob ''hasOwnProperty'' = None)"

text \<open>
  The property names a \<open>for (prop in obj)\<close> loop visits, each name once: first the
  integer-like names (array indices: a decimal numeral with no leading zero, below
  \<open>2\<^sup>3\<^sup>2 - 1\<close>) in ascending order, then the other names in the order they were
  added.
\<close>

definition digit :: "char \<Rightarrow> bool" where
  "digit c = (48 \<le> (of_char c :: nat) \<and> (of_char c :: nat) \<le> 57)"

definition decimal :: "string \<Rightarrow> nat" where
  "decimal str = fold (\<lambda>c n. 10 * n + (of_char c - 48)) str 0"

definition array_index :: "string \<Rightarrow> bool" where
  "array_index str =
     (str \<noteq> [] \<and> list_all digit str \<and> (str = ''0'' \<or> hd str \<noteq> CHR ''0'')
      \<and> decimal str < 4294967295)"

definition own_names :: "(string \<times> 'v) list \<Rightarrow> string list" where
  "own_names ob = rev (remdups (rev (map fst ob)))"

definition for_in :: "(string \<times> 'v) list \<Rightarrow> string list" where
  "for_in ob =
     sort_key decimal (filter array_index (own_names ob))
     @ filter (\<lambda>name. \<not> array_index name) (own_names ob)"

text \<open>\<open>each(obj, func)\<close>, lines 29-37: \<open>func\<close> receives the object and the name of
  each own property, and threads the state it mutates.\<close>

definition each ::
  "(string \<times> 'v) list \<Rightarrow> ((string \<times> 'v) list \<Rightarrow> string \<Rightarrow> 's \<Rightarrow> 's) \<Rightarrow> 's \<Rightarrow> 's" where
  "each ob func =
     fold (\<lambda>prop st. if hasOwnProperty ob prop then func ob prop st else st) (for_in ob)"

text \<open>\<open>simpleCopy(targetObj, srcObj)\<close>, lines 45-51, on references.\<close>

definition simpleCopy :: "addr \<Rightarrow> addr \<Rightarrow> heap \<Rightarrow> heap" where
  "simpleCopy targetObj srcObj h =
     each (h srcObj)
       (\<lambda>src prop h'. h'(targetObj := set_prop prop (get_prop (h' srcObj) prop) (h' targetObj))) h"

subsection \<open>Functions held by the engine\<close>

text \<open>
  A callback is known by its identity (\<open>===\<close> compares identities); \<open>Noop\<close> is the
  literal \<open>function () {}\<close> the engine puts where a callback was not given. What a
  callback does is a parameter of the model, a \<open>behaviour\<close>: given the references it
  receives, it may rewrite any object of the heap. Callbacks that call back into the
  engine are outside the model.
\<close>

datatype fn = Noop | Fn nat

type_synonym behaviour = "nat \<Rightarrow> addr list \<Rightarrow> heap \<Rightarrow> heap"

fun run_fn :: "behaviour \<Rightarrow> fn \<Rightarrow> addr list \<Rightarrow> heap \<Rightarrow> heap" where
  "run_fn beh Noop args h = h"
| "run_fn beh (Fn i) args h = beh i args h"

type_synonym easing_fn = "jsval \<Rightarrow> jsval \<Rightarrow> jsval \<Rightarrow> jsval \<Rightarrow> jsval"

text \<open>\<open>Tweenable.prototype.formula.linear\<close>, lines 331-334.\<close>

definition formula_linear :: easing_fn where
  "formula_linear t b c d = js_add (js_div (js_mul c t) d) b"

subsection \<open>Run parameters and run state\<close>

text \<open>
  \<open>params\<close> holds the fields \<open>tween()\<close> assigns on \<open>this._tweenParams\<close>, \<open>state\<close> the
  fields of \<open>this._state\<close>. \<open>fps\<close> is the field \<open>timeoutHandler\<close> reads at line 136;
  no line of the source assigns it. Timer handles are positive, and \<open>loopId = 0\<close> is
  what \<open>tween()\<close> stores at line 246.
\<close>

record params =
  step :: fn
  callback :: fn
  to :: addr
  duration :: jsval
  easing :: string
  timestamp :: jsval
  easingFunc :: easing_fn
  originalState :: addr
  fps :: jsval

record state =
  isAnimating :: bool
  isPaused :: bool
  pausedAtTime :: jsval
  loopId :: nat
  current :: addr

text \<open>The value line 70 assigns to \<open>state.current[prop]\<close>.\<close>

definition interpolate :: "jsval \<Rightarrow> params \<Rightarrow> heap \<Rightarrow> string \<Rightarrow> jsval" where
  "interpolate currentTime p h prop =
     easingFunc p (js_sub currentTime (timestamp p))
       (get_prop (h (originalState p)) prop)
       (js_sub (get_prop (h (to p)) prop) (get_prop (h (originalState p)) prop))
       (duration p)"

text \<open>\<open>tweenProps(currentTime, params, state)\<close>, lines 65-73: the body of the loop
  (lines 69-71), then the loop over the properties of \<open>state.current\<close>.\<close>

definition tweenProps_body :: "jsval \<Rightarrow> params \<Rightarrow> state \<Rightarrow> string \<Rightarrow> heap \<Rightarrow> heap" where
  "tweenProps_body currentTime p s prop h =
     (if hasOwnProperty (h (current s)) prop \<and> hasOwnProperty (h (to p)) prop
      then h(current s := set_prop prop (interpolate currentTime p h prop) (h (current s)))
      else h)"

definition tweenProps :: "jsval \<Rightarrow> params \<Rightarrow> state \<Rightarrow> heap \<Rightarrow> heap" where
  "tweenProps currentTime p s h =
     fold (tweenProps_body currentTime p s) (for_in (h (current s))) h"

subsection \<open>The world: one engine instance and its environment\<close>

text \<open>
  The trace records, in order, every call the engine makes to a function it was given
  and every timer it sets or clears; \<open>Interpolated\<close> marks a run of \<open>tweenProps\<close>.
\<close>

datatype role = FilterRole string string | HookRole string | StepRole | CallbackRole

datatype event =
    Called role fn "addr list"
  | Interpolated
  | SetTimeout nat jsval
  | ClearTimeout nat

text \<open>
  \<open>timers\<close> are the pending timeouts, each with the delay it was requested with; every
  timeout of the instance runs \<open>timeoutHandler\<close> on the instance's parameters and state
  (the closures of lines 134, 180 and 276). \<open>filter_registry\<close> is
  \<open>Tweenable.prototype.filter\<close>; \<open>formula_members\<close> holds every member that a
  lookup \<open>Tweenable.prototype.formula[name]\<close> finds besides the built-in \<open>linear\<close>:
  the formulas attached to it and the members it inherits (\<open>constructor\<close>,
  \<open>toString\<close> and the like), an attached \<open>linear\<close> standing for one that replaced
  the built-in; \<open>hook\<close> is
  \<open>this._hook\<close>; \<open>this_fps\<close>, \<open>this_easing\<close> and \<open>this_duration\<close> are the instance's
  \<open>fps\<close>, \<open>easing\<close> and \<open>duration\<close>. \<open>run\<close> is \<open>None\<close> on an instance whose
  \<open>tween()\<close> never ran: \<open>_tweenParams\<close> and \<open>_state\<close> have no field yet and
  no controller exists.
\<close>

record world =
  heap :: heap
  nextAddr :: addr
  timers :: "(nat \<times> jsval) list"
  nextTimer :: nat
  trace :: "event list"
  filter_registry :: "(string \<times> (string \<times> fn) list) list"
  formula_members :: "(string \<times> easing_fn) list"
  hook :: "(string \<times> fn list) list"
  this_fps :: jsval
  this_easing :: string
  this_duration :: jsval
  run :: "(params \<times> state) option"

definition str_or :: "string option \<Rightarrow> string \<Rightarrow> string" where
  "str_or a b = (case a of None \<Rightarrow> b | Some x \<Rightarrow> if x = [] then b else x)"

definition fn_or :: "fn option \<Rightarrow> fn \<Rightarrow> fn" where
  "fn_or a b = (case a of None \<Rightarrow> b | Some f \<Rightarrow> f)"

text \<open>\<open>Tweenable().init(options)\<close>, lines 208-230, in an environment that holds the
  caller's objects, the registered filters and formulas. An option that was not given is
  \<open>undefined\<close> (\<open>None\<close> for the easing name).\<close>

definition init ::
  "jsval \<Rightarrow> string option \<Rightarrow> jsval \<Rightarrow> heap \<Rightarrow> addr \<Rightarrow> (string \<times> (string \<times> fn) list) list \<Rightarrow>
   (string \<times> easing_fn) list \<Rightarrow> world" where
  "init options_fps options_easing options_duration h n reg ext =
     \<lparr> heap = h, nextAddr = n, timers = [], nextTimer = 1, trace = [],
       filter_registry = reg, formula_members = ext, hook = [],
       this_fps = js_or options_fps (Number (Num 30)),
       this_easing = str_or options_easing ''linear'',
       this_duration = js_or options_duration (Number (Num 500)),
       run = None \<rparr>"

text \<open>An object literal \<open>{}\<close>: a new reference to an empty object.\<close>

definition alloc :: "world \<Rightarrow> addr \<times> world" where
  "alloc w = (nextAddr w, w\<lparr>heap := (heap w)(nextAddr w := []), nextAddr := Suc (nextAddr w)\<rparr>)"

text \<open>\<open>x || {}\<close> on an object reference.\<close>

definition or_empty :: "addr option \<Rightarrow> world \<Rightarrow> addr \<times> world" where
  "or_empty a w = (case a of Some x \<Rightarrow> (x, w) | None \<Rightarrow> alloc w)"

definition setTimeout :: "jsval \<Rightarrow> world \<Rightarrow> nat \<times> world" where
  "setTimeout delay w =
     (nextTimer w,
      w\<lparr>timers := timers w @ [(nextTimer w, delay)], nextTimer := Suc (nextTimer w),
        trace := trace w @ [SetTimeout (nextTimer w) delay]\<rparr>)"

definition clearTimeout :: "nat \<Rightarrow> world \<Rightarrow> world" where
  "clearTimeout tid w =
     w\<lparr>timers := filter (\<lambda>t. fst t \<noteq> tid) (timers w), trace := trace w @ [ClearTimeout tid]\<rparr>"

text \<open>\<open>scheduleUpdate(handler, fps)\<close>, lines 75-77. An argument that is left out is
  \<open>undefined\<close>.\<close>

definition scheduleUpdate :: "jsval \<Rightarrow> world \<Rightarrow> nat \<times> world" where
  "scheduleUpdate fps_arg w = setTimeout (js_div (Number (Num 1000)) fps_arg) w"

text \<open>A call of a function the engine was given.\<close>

definition call_fn :: "behaviour \<Rightarrow> role \<Rightarrow> fn \<Rightarrow> addr list \<Rightarrow> world \<Rightarrow> world" where
  "call_fn beh r f args w =
     w\<lparr>heap := run_fn beh f args (heap w), trace := trace w @ [Called r f args]\<rparr>"

text \<open>\<open>invokeHook(hookName, hooks, applyTo, args)\<close>, lines 86-92; \<open>fs\<close> is
  \<open>hooks[hookName]\<close>.\<close>

definition invokeHook :: "behaviour \<Rightarrow> string \<Rightarrow> fn list \<Rightarrow> addr list \<Rightarrow> world \<Rightarrow> world" where
  "invokeHook beh hookName fs args w = fold (\<lambda>f. call_fn beh (HookRole hookName) f args) fs w"

text \<open>\<open>applyFilter(filterName, applyTo, args)\<close>, lines 100-106. \<open>name\<close> is an own
  property of the registry, so \<open>filters[name]\<close> is there.\<close>

definition applyFilter :: "behaviour \<Rightarrow> string \<Rightarrow> addr list \<Rightarrow> world \<Rightarrow> world" where
  "applyFilter beh filterName args w =
     each (filter_registry w)
       (\<lambda>filters name w'.
          case map_of filters name of
            None \<Rightarrow> w'
          | Some grp \<Rightarrow>
              (case map_of grp filterName of
                 None \<Rightarrow> w'
               | Some f \<Rightarrow> call_fn beh (FilterRole name filterName) f args w')) w"

subsection \<open>The controller (lines 143-196)\<close>

text \<open>\<open>stop(gotoEnd)\<close>, lines 149-158.\<close>

definition stop :: "behaviour \<Rightarrow> bool \<Rightarrow> params \<Rightarrow> state \<Rightarrow> world \<Rightarrow> state \<times> world" where
  "stop beh gotoEnd p s w =
     (let w1 = clearTimeout (loopId s) w in
      if gotoEnd then
        (let w2 = w1\<lparr>heap := simpleCopy (current s) (to p) (heap w1)\<rparr>;
             s' = s\<lparr>isAnimating := False\<rparr>
         in (s', call_fn beh CallbackRole (callback p) [current s] w2))
      else (s, w1))"

text \<open>\<open>pause()\<close>, lines 164-169.\<close>

definition pause :: "int \<Rightarrow> state \<Rightarrow> world \<Rightarrow> state \<times> world" where
  "pause now s w =
     (let w1 = clearTimeout (loopId s) w
      in (s\<lparr>pausedAtTime := time_val now, isPaused := True\<rparr>, w1))"

text \<open>\<open>resume()\<close>, lines 175-185. The call at line 180 passes no \<open>fps\<close>, and the handle
  it returns is not kept.\<close>

definition resume :: "params \<Rightarrow> state \<Rightarrow> world \<Rightarrow> params \<times> world" where
  "resume p s w =
     (let p' = (if isPaused s
                then p\<lparr>timestamp := js_add (timestamp p) (js_sub (pausedAtTime s) (timestamp p))\<rparr>
                else p)
      in (p', snd (scheduleUpdate Undefined w)))"

text \<open>\<open>get()\<close>, lines 191-193.\<close>

definition get :: "state \<Rightarrow> addr" where
  "get s = current s"

subsection \<open>The tick (lines 117-141)\<close>

definition timeoutHandler ::
  "behaviour \<Rightarrow> int \<Rightarrow> params \<Rightarrow> state \<Rightarrow> world \<Rightarrow> state \<times> world" where
  "timeoutHandler beh now p s w =
     (let currentTime = time_val now in
      if js_lt currentTime (js_add (timestamp p) (duration p)) \<and> isAnimating s then
        (let args = [current s, originalState p, to p];
             w1 = applyFilter beh ''beforeTween'' args w;
             w2 = w1\<lparr>heap := tweenProps currentTime p s (heap w1),
                     trace := trace w1 @ [Interpolated]\<rparr>;
             w3 = applyFilter beh ''afterTween'' args w2;
             w4 = (case map_of (hook w3) ''step'' of
                     None \<Rightarrow> w3
                   | Some fs \<Rightarrow> invokeHook beh ''step'' fs [current s] w3);
             w5 = call_fn beh StepRole (step p) [current s] w4;
             (tid, w6) = scheduleUpdate (fps p) w5
         in (s\<lparr>loopId := tid\<rparr>, w6))
      else stop beh True p s w)"

subsection \<open>The instance (lines 198-311)\<close>

text \<open>
  The two ways to call \<open>tween\<close>: \<open>Shorthand from to duration callback easing\<close> when the
  second argument is given, \<open>Longhand from to duration easing step callback\<close> for a
  configuration object with these fields. An argument or field left out is \<open>None\<close>
  (\<open>Undefined\<close> for the duration). A call with neither a second argument nor a
  configuration object is outside the model.
\<close>

datatype tween_args =
    Shorthand "addr option" addr jsval "fn option" "string option"
  | Longhand "addr option" "addr option" jsval "string option" "fn option" "fn option"

datatype tween_result = Controller | NoController

text \<open>Lines 251-267: the step callback, the completion callback, \<open>current\<close>, \<open>to\<close>, the
  duration and the easing name.\<close>

definition normalize_args ::
  "tween_args \<Rightarrow> world \<Rightarrow> fn \<times> fn \<times> addr \<times> addr \<times> jsval \<times> string \<times> world" where
  "normalize_args args w =
     (case args of
        Shorthand from dest dur cb eas \<Rightarrow>
          (let (cur, w1) = or_empty from w
           in (Noop, fn_or cb Noop, cur, dest, js_or dur (this_duration w),
               str_or eas (this_easing w), w1))
      | Longhand from dest dur eas st cb \<Rightarrow>
          (let (cur, w1) = or_empty from w;
               (dest', w2) = or_empty dest w1
           in (fn_or st Noop, fn_or cb Noop, cur, dest', js_or dur (this_duration w),
               str_or eas (this_easing w), w2)))"

text \<open>Line 270: \<open>this.formula[easing] || this.formula.linear\<close>. A member is a
  function, so it is truthy.\<close>

definition resolve_easing :: "(string \<times> easing_fn) list \<Rightarrow> string \<Rightarrow> easing_fn" where
  "resolve_easing members name =
     (case map_of members name of
        Some f \<Rightarrow> f
      | None \<Rightarrow> (case map_of members ''linear'' of Some g \<Rightarrow> g | None \<Rightarrow> formula_linear))"

definition is_animating :: "world \<Rightarrow> bool" where
  "is_animating w = (case run w of None \<Rightarrow> False | Some (p, s) \<Rightarrow> isAnimating s)"

definition is_paused :: "world \<Rightarrow> bool" where
  "is_paused w = (case run w of None \<Rightarrow> False | Some (p, s) \<Rightarrow> isPaused s)"

text \<open>\<open>tween(from, to, duration, callback, easing)\<close>, lines 238-281. The handle of the
  timeout set at line 276 is not kept.\<close>

definition tween :: "behaviour \<Rightarrow> int \<Rightarrow> tween_args \<Rightarrow> world \<Rightarrow> tween_result \<times> world" where
  "tween beh now args w =
     (if is_animating w then (NoController, w)
      else
        (let (unused, w0) = alloc w;
             (st, cb, cur, dest, dur, eas, w1) = normalize_args args w0;
             (orig, w2) = alloc w1;
             w3 = w2\<lparr>heap := simpleCopy orig cur (heap w2)\<rparr>;
             p = \<lparr> step = st, callback = cb, to = dest, duration = dur, easing = eas,
                   timestamp = time_val now,
                   easingFunc = resolve_easing (formula_members w) eas,
                   originalState = orig, fps = Undefined \<rparr>;
             w4 = applyFilter beh ''tweenCreated'' [cur, orig, dest] w3;
             s = \<lparr> isAnimating = True, isPaused = is_paused w, pausedAtTime = Null,
                   loopId = 0, current = cur \<rparr>;
             w5 = snd (scheduleUpdate (this_fps w) w4)
         in (Controller, w5\<lparr>run := Some (p, s)\<rparr>)))"

text \<open>\<open>hookAdd(hookName, hookFunc)\<close>, lines 283-289.\<close>

definition hookAdd :: "string \<Rightarrow> fn \<Rightarrow> world \<Rightarrow> world" where
  "hookAdd hookName hookFunc w =
     w\<lparr>hook := AList.update hookName
          ((case map_of (hook w) hookName of None \<Rightarrow> [] | Some fs \<Rightarrow> fs) @ [hookFunc]) (hook w)\<rparr>"

text \<open>An array read: \<open>undefined\<close> (here \<open>None\<close>) outside the array.\<close>

definition array_get :: "'a list \<Rightarrow> int \<Rightarrow> 'a option" where
  "array_get arr i = (if 0 \<le> i \<and> i < int (length arr) then Some (arr ! nat i) else None)"

text \<open>\<open>arr.splice(i, 1)\<close> for \<open>0 \<le> i\<close>.\<close>

definition splice1 :: "'a list \<Rightarrow> int \<Rightarrow> 'a list" where
  "splice1 arr i = take (nat i) arr @ drop (Suc (nat i)) arr"

text \<open>The loop of lines 303-307. A loop that does not end has the value \<open>None\<close>.\<close>

partial_function (option) hookRemove_loop :: "fn list \<Rightarrow> int \<Rightarrow> fn \<Rightarrow> fn list option" where
  "hookRemove_loop arr i hookFunc =
     (if 0 \<le> i
      then hookRemove_loop (if array_get arr i = Some hookFunc then splice1 arr i else arr)
             (i + 1) hookFunc
      else Some arr)"

text \<open>\<open>hookRemove(hookName, hookFunc)\<close>, lines 291-308; \<open>None\<close> when the call does not
  return.\<close>

definition hookRemove :: "string \<Rightarrow> fn option \<Rightarrow> world \<Rightarrow> world option" where
  "hookRemove hookName hookFunc w =
     (case map_of (hook w) hookName of
        None \<Rightarrow> Some w
      | Some arr \<Rightarrow>
          (case hookFunc of
             None \<Rightarrow> Some (w\<lparr>hook := AList.update hookName [] (hook w)\<rparr>)
           | Some f \<Rightarrow>
               map_option (\<lambda>arr'. w\<lparr>hook := AList.update hookName arr' (hook w)\<rparr>)
                 (hookRemove_loop arr (int (length arr)) f)))"

subsection \<open>Calls from outside\<close>

text \<open>
  The environment fires a pending timeout at a time of its choosing; the caller uses
  the controller that \<open>tween()\<close> returned. Each is \<open>None\<close> when it cannot happen: no
  such timeout is pending, or no controller exists.
\<close>

definition fire :: "behaviour \<Rightarrow> int \<Rightarrow> nat \<Rightarrow> world \<Rightarrow> world option" where
  "fire beh now tid w =
     (if tid \<in> fst ` set (timers w) then
        (case run w of
           None \<Rightarrow> None
         | Some (p, s) \<Rightarrow>
             (let (s', w') = timeoutHandler beh now p s
                               (w\<lparr>timers := filter (\<lambda>t. fst t \<noteq> tid) (timers w)\<rparr>)
              in Some (w'\<lparr>run := Some (p, s')\<rparr>)))
      else None)"

definition controller_stop :: "behaviour \<Rightarrow> bool \<Rightarrow> world \<Rightarrow> world option" where
  "controller_stop beh gotoEnd w =
     (case run w of
        None \<Rightarrow> None
      | Some (p, s) \<Rightarrow> (let (s', w') = stop beh gotoEnd p s w in Some (w'\<lparr>run := Some (p, s')\<rparr>)))"

definition controller_pause :: "int \<Rightarrow> world \<Rightarrow> world option" where
  "controller_pause now w =
     (case run w of
        None \<Rightarrow> None
      | Some (p, s) \<Rightarrow> (let (s', w') = pause now s w in Some (w'\<lparr>run := Some (p, s')\<rparr>)))"

definition controller_resume :: "world \<Rightarrow> world option" where
  "controller_resume w =
     (case run w of
        None \<Rightarrow> None
      | Some (p, s) \<Rightarrow> (let (p', w') = resume p s w in Some (w'\<lparr>run := Some (p', s)\<rparr>)))"

definition start :: "behaviour \<Rightarrow> int \<Rightarrow> tween_args \<Rightarrow> world \<Rightarrow> world option" where
  "start beh now args w = Some (snd (tween beh now args w))"

text \<open>What an observer reads: a property of the run's \<open>current\<close> object, the pending
  timeouts, the flag.\<close>

definition current_prop :: "string \<Rightarrow> world \<Rightarrow> jsval option" where
  "current_prop prop w =
     (case run w of None \<Rightarrow> None | Some (p, s) \<Rightarrow> Some (get_prop (heap w (current s)) prop))"

subsection \<open>The calls of one tick, as the source orders them\<close>

text \<open>The function \<open>applyFilter(filterName, ...)\<close> calls for the group \<open>name\<close> of the
  registry: the group's filter of that name, if it has one.\<close>

definition group_fn ::
  "string \<Rightarrow> (string \<times> (string \<times> fn) list) list \<Rightarrow> string \<Rightarrow> (string \<times> fn) list" where
  "group_fn filterName reg name =
     (case map_of reg name of
        None \<Rightarrow> []
      | Some grp \<Rightarrow> (case map_of grp filterName of None \<Rightarrow> [] | Some f \<Rightarrow> [(name, f)]))"

text \<open>The functions \<open>applyFilter(filterName, ...)\<close> calls, each with the name of its
  group: those of each group, in the order a \<open>for-in\<close> loop visits the registry.\<close>

definition filter_fns ::
  "(string \<times> (string \<times> fn) list) list \<Rightarrow> string \<Rightarrow> (string \<times> fn) list" where
  "filter_fns reg filterName = concat (map (group_fn filterName reg) (for_in reg))"

definition filter_calls ::
  "(string \<times> (string \<times> fn) list) list \<Rightarrow> string \<Rightarrow> addr list \<Rightarrow> event list" where
  "filter_calls reg filterName args =
     map (\<lambda>nf. Called (FilterRole (fst nf) filterName) (snd nf) args) (filter_fns reg filterName)"

text \<open>The entries of the hook list \<open>hookName\<close>, in order; none when no such list is
  registered.\<close>

definition hook_fns :: "(string \<times> fn list) list \<Rightarrow> string \<Rightarrow> fn list" where
  "hook_fns hk hookName = (case map_of hk hookName of None \<Rightarrow> [] | Some fs \<Rightarrow> fs)"

definition hook_calls :: "(string \<times> fn list) list \<Rightarrow> string \<Rightarrow> addr list \<Rightarrow> event list" where
  "hook_calls hk hookName args = map (\<lambda>f. Called (HookRole hookName) f args) (hook_fns hk hookName)"

text \<open>What calling the functions \<open>fs\<close> one after the other, each on \<open>args\<close>, makes of the
  heap.\<close>

definition run_all :: "behaviour \<Rightarrow> fn list \<Rightarrow> addr list \<Rightarrow> heap \<Rightarrow> heap" where
  "run_all beh fs args h = fold (\<lambda>f. run_fn beh f args) fs h"

subsection \<open>One round of each loop\<close>

text \<open>What \<open>each\<close> does for one property name in \<open>applyFilter\<close> and in \<open>simpleCopy\<close>;
  the loops are folds of these rounds.\<close>

definition applyFilter_round ::
  "behaviour \<Rightarrow> string \<Rightarrow> addr list \<Rightarrow> (string \<times> (string \<times> fn) list) list \<Rightarrow> string \<Rightarrow>
   world \<Rightarrow> world" where
  "applyFilter_round beh filterName args reg prop st =
     (if hasOwnProperty reg prop
      then (case map_of reg prop of
              None \<Rightarrow> st
            | Some grp \<Rightarrow>
                (case map_of grp filterName of
                   None \<Rightarrow> st
                 | Some f \<Rightarrow> call_fn beh (FilterRole prop filterName) f args st))
      else st)"

definition simpleCopy_round :: "obj \<Rightarrow> addr \<Rightarrow> addr \<Rightarrow> string \<Rightarrow> heap \<Rightarrow> heap" where
  "simpleCopy_round ob targetObj srcObj prop h =
     (if hasOwnProperty ob prop
      then h(targetObj := set_prop prop (get_prop (h srcObj) prop) (h targetObj))
      else h)"

subsection \<open>Reading a call and its outcome\<close>

text \<open>The \<open>from\<close> argument of a call of \<open>tween\<close>, in either form.\<close>

definition from_arg :: "tween_args \<Rightarrow> addr option" where
  "from_arg args =
     (case args of
        Shorthand from dest dur cb eas \<Rightarrow> from
      | Longhand from dest dur eas st cb \<Rightarrow> from)"

text \<open>What a call of \<open>tween\<close> returns, and the object behind a reference.\<close>

definition returned :: "behaviour \<Rightarrow> int \<Rightarrow> tween_args \<Rightarrow> world \<Rightarrow> tween_result option" where
  "returned beh now args w = Some (fst (tween beh now args w))"

definition object_at :: "addr \<Rightarrow> world \<Rightarrow> obj option" where
  "object_at a w = Some (heap w a)"

subsection \<open>Example runs\<close>

text \<open>Callbacks that leave every object as it is.\<close>

definition inert :: behaviour where
  "inert i args h = h"

text \<open>\<open>from = {x: 0}\<close> at reference 0, \<open>to = {x: 100}\<close> at reference 1, on an instance
  made with no options (30 frames per second), and \<open>tween(from, to, 1000)\<close>.\<close>

definition demo_heap :: heap where
  "demo_heap = (\<lambda>a. [])(0 := [(''x'', Number (Num 0))], 1 := [(''x'', Number (Num 100))])"

definition demo_world :: world where
  "demo_world = init Undefined None Undefined demo_heap 2 [] []"

definition demo_args :: tween_args where
  "demo_args = Shorthand (Some 0) 1 (Number (Num 1000)) None None"

text \<open>The same with a completion callback, \<open>tween(from, to, 1000, done)\<close>.\<close>

definition callback_args :: tween_args where
  "callback_args = Shorthand (Some 0) 1 (Number (Num 1000)) (Some (Fn 40)) None"

text \<open>The same with a duration of 20 milliseconds, shorter than one frame.\<close>

definition short_args :: tween_args where
  "short_args = Shorthand (Some 0) 1 (Number (Num 20)) None None"

text \<open>\<open>from = {x: 10, y: 5, 2: 1}\<close>, \<open>to = {x: 30, z: 7, 2: 3}\<close>, the snapshot of \<open>from\<close>
  at reference 2, and a run over them that started at time 100 and lasts 1000
  milliseconds.\<close>

definition sel_heap :: heap where
  "sel_heap = (\<lambda>a. [])
     (0 := [(''x'', Number (Num 10)), (''y'', Number (Num 5)), (''2'', Number (Num 1))],
      1 := [(''x'', Number (Num 30)), (''z'', Number (Num 7)), (''2'', Number (Num 3))],
      2 := [(''x'', Number (Num 10)), (''y'', Number (Num 5)), (''2'', Number (Num 1))])"

definition sel_params :: params where
  "sel_params =
     \<lparr> step = Noop, callback = Noop, to = 1, duration = Number (Num 1000), easing = ''linear'',
       timestamp = time_val 100, easingFunc = formula_linear, originalState = 2,
       fps = Undefined \<rparr>"

definition sel_state :: state where
  "sel_state =
     \<lparr> isAnimating = True, isPaused = False, pausedAtTime = Null, loopId = 0, current = 0 \<rparr>"

text \<open>An instance with a filter group \<open>color\<close> that has a \<open>beforeTween\<close> and an
  \<open>afterTween\<close> filter and with a \<open>step\<close> hook, and the arguments of a tween given in the
  long form with a \<open>step\<close> callback.\<close>

definition hooked_world :: world where
  "hooked_world =
     hookAdd ''step'' (Fn 20)
       (init Undefined None Undefined demo_heap 2
          [(''color'', [(''beforeTween'', Fn 10), (''afterTween'', Fn 11)])] [])"

definition hooked_args :: tween_args where
  "hooked_args = Longhand (Some 0) (Some 1) (Number (Num 1000)) None (Some (Fn 30)) None"

text \<open>
  Callbacks that write: as filters (called on \<open>current\<close>, \<open>originalState\<close> and \<open>to\<close>),
  function 10 sets \<open>to.x = 200\<close>, function 12 sets \<open>to.x = 300\<close>, function 11 adds 1 to
  \<open>current.x\<close> and function 13 sets \<open>originalState.x = 20\<close>; as a hook or a step callback
  (called on \<open>current\<close>), function 20 doubles \<open>current.x\<close> and function 30 copies it to
  \<open>current.seen\<close>.
\<close>

fun writing :: behaviour where
  "writing i [c, orig, dest] h =
     (if i = 10 then h(dest := set_prop ''x'' (Number (Num 200)) (h dest))
      else if i = 12 then h(dest := set_prop ''x'' (Number (Num 300)) (h dest))
      else if i = 11 then
        h(c := set_prop ''x'' (js_add (get_prop (h c) ''x'') (Number (Num 1))) (h c))
      else if i = 13 then h(orig := set_prop ''x'' (Number (Num 20)) (h orig))
      else h)"
| "writing i [c] h =
     (if i = 20 then
        h(c := set_prop ''x'' (js_mul (get_prop (h c) ''x'') (Number (Num 2))) (h c))
      else if i = 30 then h(c := set_prop ''seen'' (get_prop (h c) ''x'') (h c))
      else h)"
| "writing i args h = h"

text \<open>\<open>from = {x: 10}\<close> and \<open>to = {x: 100}\<close>; a registry with the groups \<open>color\<close> (a
  \<open>tweenCreated\<close>, a \<open>beforeTween\<close> and an \<open>afterTween\<close> filter) and \<open>7\<close> (a
  \<open>beforeTween\<close> filter), added in this order; a \<open>step\<close> hook; and the parameters and
  state of the run that the long form of \<open>tween\<close> with a \<open>step\<close> callback starts at time
  100.\<close>

definition ordered_heap :: heap where
  "ordered_heap = (\<lambda>a. [])(0 := [(''x'', Number (Num 10))], 1 := [(''x'', Number (Num 100))])"

definition ordered_registry :: "(string \<times> (string \<times> fn) list) list" where
  "ordered_registry =
     [(''color'', [(''tweenCreated'', Fn 13), (''beforeTween'', Fn 10), (''afterTween'', Fn 11)]),
      (''7'', [(''beforeTween'', Fn 12)])]"

definition ordered_world :: world where
  "ordered_world =
     hookAdd ''step'' (Fn 20) (init Undefined None Undefined ordered_heap 2 ordered_registry [])"

definition ordered_params :: params where
  "ordered_params =
     \<lparr> step = Fn 30, callback = Noop, to = 1, duration = Number (Num 1000), easing = ''linear'',
       timestamp = time_val 100, easingFunc = formula_linear, originalState = 3,
       fps = Undefined \<rparr>"

definition ordered_state :: state where
  "ordered_state =
     \<lparr> isAnimating = True, isPaused = False, pausedAtTime = Null, loopId = 0, current = 0 \<rparr>"

definition ordered_started :: world where
  "ordered_started = snd (tween writing 100 hooked_args ordered_world)"

text \<open>\<open>tween(undefined, to, 1000)\<close>: no \<open>from\<close>.\<close>

definition fromless_args :: tween_args where
  "fromless_args = Shorthand None 1 (Number (Num 1000)) None None"

text \<open>The parameters and the state of the run that \<open>tween(from, to, 1000)\<close> starts on
  \<open>demo_world\<close> at time 0, and the world after its first tick, at time 100.\<close>

definition demo_params :: params where
  "demo_params =
     \<lparr> step = Noop, callback = Noop, to = 1, duration = Number (Num 1000), easing = ''linear'',
       timestamp = time_val 0, easingFunc = formula_linear, originalState = 3, fps = Undefined \<rparr>"

definition demo_state :: state where
  "demo_state =
     \<lparr> isAnimating = True, isPaused = False, pausedAtTime = Null, loopId = 0, current = 0 \<rparr>"

definition ticked_state :: state where
  "ticked_state = demo_state\<lparr>loopId := 2\<rparr>"

definition ticked_world :: world where
  "ticked_world =
     (snd (timeoutHandler inert 100 demo_params demo_state
             ((snd (tween inert 0 demo_args demo_world))\<lparr>timers := []\<rparr>)))
       \<lparr>run := Some (demo_params, ticked_state)\<rparr>"

text \<open>The state of a run that was paused at time 200.\<close>

definition paused_state :: state where
  "paused_state = demo_state\<lparr>pausedAtTime := time_val 200, isPaused := True\<rparr>"

section \<open>Properties\<close>

subsection \<open>Objects\<close>

lemma hasOwn_set_prop: "hasOwnProperty (set_prop k v ob) k' = (k' = k \<or> hasOwnProperty ob k')"
  by (simp add: hasOwnProperty_def set_prop_def update_conv')

lemma get_set_prop: "get_prop (set_prop k v ob) k' = (if k' = k then v else get_prop ob k')"
  by (simp add: get_prop_def set_prop_def update_conv')

lemma keys_set_prop: "hasOwnProperty ob k \<Longrightarrow> map fst (set_prop k v ob) = map fst ob"
  by (simp add: hasOwnProperty_def set_prop_def update_keys map_of_eq_None_iff)

lemma map_of_set_prop: "map_of (set_prop k v ob) = (map_of ob)(k \<mapsto> v)"
  by (simp add: set_prop_def update_conv')

lemma distinct_own_names: "distinct (own_names ob)"
  by (simp add: own_names_def)

lemma set_own_names: "set (own_names ob) = fst ` set ob"
  by (simp add: own_names_def)

lemma distinct_for_in: "distinct (for_in ob)"
  by (auto simp add: for_in_def distinct_own_names)

lemma set_for_in: "k \<in> set (for_in ob) \<longleftrightarrow> hasOwnProperty ob k"
  by (auto simp add: for_in_def set_own_names hasOwnProperty_def map_of_eq_None_iff)

subsection \<open>The interpolation step\<close>

lemma tweenProps_body_has:
  "hasOwnProperty (tweenProps_body ct p s k h a) k' = hasOwnProperty (h a) k'"
  by (auto simp: tweenProps_body_def hasOwn_set_prop)

lemma tweenProps_body_keys: "map fst (tweenProps_body ct p s k h a) = map fst (h a)"
  by (auto simp: tweenProps_body_def keys_set_prop)

lemma tweenProps_body_get_other:
  "k' \<noteq> k \<Longrightarrow> get_prop (tweenProps_body ct p s k h a) k' = get_prop (h a) k'"
  by (auto simp: tweenProps_body_def get_set_prop)

lemma tweenProps_body_frame: "a \<noteq> current s \<Longrightarrow> tweenProps_body ct p s k h a = h a"
  by (auto simp: tweenProps_body_def)

lemma tweenProps_body_interpolate:
  "k' \<noteq> k \<Longrightarrow> interpolate ct p (tweenProps_body ct p s k h) k' = interpolate ct p h k'"
  by (simp add: interpolate_def tweenProps_body_get_other)

lemma tweenProps_body_map_of:
  "map_of (tweenProps_body ct p s k h (current s)) k' =
     (if k' = k \<and> hasOwnProperty (h (current s)) k \<and> hasOwnProperty (h (to p)) k
      then Some (interpolate ct p h k) else map_of (h (current s)) k')"
  by (auto simp: tweenProps_body_def map_of_set_prop)

text \<open>The loop over any list of distinct names: the reads of a name see the heap the
  loop started from, since each round writes only the name it visits.\<close>

lemma fold_tweenProps_body:
  "distinct ks \<Longrightarrow>
     (\<forall>a. map fst (fold (tweenProps_body ct p s) ks h a) = map fst (h a)) \<and>
     (\<forall>a. a \<noteq> current s \<longrightarrow> fold (tweenProps_body ct p s) ks h a = h a) \<and>
     (\<forall>k'. map_of (fold (tweenProps_body ct p s) ks h (current s)) k' =
        (if k' \<in> set ks \<and> hasOwnProperty (h (current s)) k' \<and> hasOwnProperty (h (to p)) k'
         then Some (interpolate ct p h k') else map_of (h (current s)) k'))"
proof (induction ks arbitrary: h)
  case Nil
  then show ?case by simp
next
  case (Cons k ks)
  let ?h1 = "tweenProps_body ct p s k h"
  from Cons.prems have d: "distinct ks" and nk: "k \<notin> set ks" by simp_all
  note IH = Cons.IH [OF d, of ?h1]
  show ?case
  proof (intro conjI allI impI)
    fix a show "map fst (fold (tweenProps_body ct p s) (k # ks) h a) = map fst (h a)"
      using IH by (simp add: tweenProps_body_keys)
  next
    fix a assume "a \<noteq> current s"
    then show "fold (tweenProps_body ct p s) (k # ks) h a = h a"
      using IH by (simp add: tweenProps_body_frame)
  next
    fix k'
    show "map_of (fold (tweenProps_body ct p s) (k # ks) h (current s)) k' =
        (if k' \<in> set (k # ks) \<and> hasOwnProperty (h (current s)) k' \<and> hasOwnProperty (h (to p)) k'
         then Some (interpolate ct p h k') else map_of (h (current s)) k')"
    proof (cases "k' \<in> set ks")
      case True
      then have "k' \<noteq> k" using nk by auto
      then show ?thesis using IH True
        by (simp add: tweenProps_body_has tweenProps_body_interpolate tweenProps_body_map_of)
    next
      case False
      then show ?thesis using IH
        by (auto simp add: tweenProps_body_has tweenProps_body_map_of)
    qed
  qed
qed

lemma tweenProps_map_of:
  "map_of (tweenProps ct p s h (current s)) k =
     (if hasOwnProperty (h (current s)) k \<and> hasOwnProperty (h (to p)) k
      then Some (interpolate ct p h k) else map_of (h (current s)) k)"
  using fold_tweenProps_body [OF distinct_for_in, of ct p s "h (current s)" h]
  by (simp add: tweenProps_def set_for_in)

lemma tweenProps_keys: "map fst (tweenProps ct p s h a) = map fst (h a)"
  using fold_tweenProps_body [OF distinct_for_in, of ct p s "h (current s)" h]
  by (simp add: tweenProps_def)


text \<open>
  Claim C6. One interpolation step at time \<open>currentTime\<close> maps the current-state object
  pointwise: a property that \<open>current\<close> and \<open>to\<close> both have becomes
  \<open>easingFunc(currentTime - timestamp, originalState[key], to[key] - originalState[key],
  duration)\<close>, the reads being those of the heap the step started from; a property of
  \<open>current\<close> that \<open>to\<close> lacks keeps its value; and the property names of \<open>current\<close> are
  the same list after the step, so no property is added. The objects \<open>current\<close> and
  \<open>to\<close> are plain: neither has an own property named \<open>hasOwnProperty\<close>, which line 69
  would call in place of the inherited method.
\<close>

theorem tweenProps_pointwise:
  assumes "plain (h (current s))" and "plain (h (to p))"
  shows "map_of (tweenProps currentTime p s h (current s)) key =
     (if hasOwnProperty (h (current s)) key \<and> hasOwnProperty (h (to p)) key
      then Some (easingFunc p (js_sub currentTime (timestamp p))
                   (get_prop (h (originalState p)) key)
                   (js_sub (get_prop (h (to p)) key) (get_prop (h (originalState p)) key))
                   (duration p))
      else map_of (h (current s)) key)
   \<and> map fst (tweenProps currentTime p s h (current s)) = map fst (h (current s))"
  by (simp add: tweenProps_map_of tweenProps_keys interpolate_def)

theorem tweenProps_pointwise_witness:
  "plain (sel_heap (current sel_state)) \<and> plain (sel_heap (to sel_params))
   \<and> map_of (tweenProps (time_val 600) sel_params sel_state sel_heap 0) ''x'' = Some (Number (Num 20))
   \<and> map_of (tweenProps (time_val 600) sel_params sel_state sel_heap 0) ''y'' = Some (Number (Num 5))
   \<and> map_of (tweenProps (time_val 600) sel_params sel_state sel_heap 0) ''2'' = Some (Number (Num 2))
   \<and> map_of (tweenProps (time_val 600) sel_params sel_state sel_heap 0) ''z'' = None
   \<and> map fst (tweenProps (time_val 600) sel_params sel_state sel_heap 0) = [''x'', ''y'', ''2'']"
proof -
  have h: "sel_heap 0 = [(''x'', Number (Num 10)), (''y'', Number (Num 5)), (''2'', Number (Num 1))]"
    "sel_heap (Suc 0) = [(''x'', Number (Num 30)), (''z'', Number (Num 7)), (''2'', Number (Num 3))]"
    "sel_heap 2 = [(''x'', Number (Num 10)), (''y'', Number (Num 5)), (''2'', Number (Num 1))]"
    by (simp_all add: sel_heap_def)
  have f: "current sel_state = 0" "to sel_params = Suc 0" "originalState sel_params = 2"
    "timestamp sel_params = time_val 100" "duration sel_params = Number (Num 1000)"
    "easingFunc sel_params = formula_linear"
    by (simp_all add: sel_state_def sel_params_def)
  have c: "plain (sel_heap (current sel_state))" by (simp add: f h plain_def)
  have t: "plain (sel_heap (to sel_params))" by (simp add: f h plain_def)
  show ?thesis
    using c t
      tweenProps_pointwise [OF c t, of "time_val 600" "''x''"]
      tweenProps_pointwise [OF c t, of "time_val 600" "''y''"]
      tweenProps_pointwise [OF c t, of "time_val 600" "''2''"]
      tweenProps_pointwise [OF c t, of "time_val 600" "''z''"]
    by (simp add: f h hasOwnProperty_def get_prop_def formula_linear_def js_add_def js_sub_def
        js_mul_def js_div_def time_val_def)
qed

subsection \<open>The linear formula\<close>

text \<open>
  Claim C10. On finite numbers with a nonzero duration \<open>d\<close>, \<open>linear(t, b, c, d)\<close> is
  \<open>c * t / d + b\<close> in exact arithmetic; it is \<open>b\<close> at \<open>t = 0\<close> and \<open>b + c\<close> at \<open>t = d\<close>.
\<close>

theorem formula_linear_exact:
  "d \<noteq> 0 \<Longrightarrow>
     formula_linear (Number (Num t)) (Number (Num b)) (Number (Num c)) (Number (Num d))
       = Number (Num (c * t / d + b))
   \<and> formula_linear (Number (Num 0)) (Number (Num b)) (Number (Num c)) (Number (Num d))
       = Number (Num b)
   \<and> formula_linear (Number (Num d)) (Number (Num b)) (Number (Num c)) (Number (Num d))
       = Number (Num (b + c))"
  by (simp add: formula_linear_def js_add_def js_div_def js_mul_def)

theorem formula_linear_exact_witness:
  "(1000::real) \<noteq> 0
   \<and> formula_linear (Number (Num 250)) (Number (Num 0)) (Number (Num 100)) (Number (Num 1000))
       = Number (Num 25)
   \<and> formula_linear (Number (Num 0)) (Number (Num 0)) (Number (Num 100)) (Number (Num 1000))
       = Number (Num 0)
   \<and> formula_linear (Number (Num 1000)) (Number (Num 0)) (Number (Num 100)) (Number (Num 1000))
       = Number (Num 100)"
  using formula_linear_exact [of 1000 250 0 100] by simp

subsection \<open>Removing a hook\<close>

lemma hookRemove_loop_Some_neg:
  assumes "hookRemove_loop arr i f = Some r"
  shows "i < 0"
proof (rule hookRemove_loop.raw_induct[where P = "\<lambda>arr i f r. i < 0", OF _ assms])
  fix rec :: "fn list \<Rightarrow> int \<Rightarrow> fn \<Rightarrow> fn list option" and arr i hookFunc arra
  assume IH: "\<And>arr i hookFunc y. rec arr i hookFunc = Some y \<Longrightarrow> i < 0"
    and body: "(if 0 \<le> i
      then rec (if array_get arr i = Some hookFunc then splice1 arr i else arr) (i + 1) hookFunc
      else Some arr) = Some arra"
  show "i < 0"
  proof (rule ccontr)
    assume "\<not> i < 0"
    then have "0 \<le> i" by simp
    with body have
      "rec (if array_get arr i = Some hookFunc then splice1 arr i else arr) (i + 1) hookFunc
         = Some arra"
      by simp
    then have "i + 1 < 0" by (rule IH)
    with \<open>0 \<le> i\<close> show False by simp
  qed
qed

text \<open>The loop starts at \<open>i = length\<close> and counts up while \<open>i >= 0\<close>: it never ends.\<close>

lemma hookRemove_loop_diverges: "0 \<le> i \<Longrightarrow> hookRemove_loop arr i f = None"
  using hookRemove_loop_Some_neg [of arr i f] by (cases "hookRemove_loop arr i f") auto

lemma hookRemove_registered:
  "map_of (hook w) hookName = Some arr \<Longrightarrow> hookRemove hookName (Some f) w = None"
  by (simp add: hookRemove_def hookRemove_loop_diverges)

text \<open>
  Claim C3 says that \<open>hookRemove(name, fn)\<close> returns, with \<open>fn\<close> removed from the list
  and the rest in place, or with the list as it was when \<open>fn\<close> is not in it. On the
  instance where \<open>hookAdd('step', f)\<close> registered the function \<open>f\<close> (\<open>Fn 20\<close>), neither
  \<open>hookRemove('step', f)\<close> nor \<open>hookRemove('step', g)\<close> for another function \<open>g\<close>
  returns.
\<close>

theorem hookRemove_never_returns:
  "hook hooked_world = [(''step'', [Fn 20])]
   \<and> hookRemove ''step'' (Some (Fn 20)) hooked_world = None
   \<and> hookRemove ''step'' (Some (Fn 21)) hooked_world = None"
proof -
  have h: "hook hooked_world = [(''step'', [Fn 20])]"
    by (simp add: hooked_world_def hookAdd_def init_def)
  then have "map_of (hook hooked_world) ''step'' = Some [Fn 20]" by simp
  then show ?thesis using h by (simp add: hookRemove_registered)
qed

subsection \<open>Copying properties\<close>

lemma simpleCopy_round_get_other:
  "k' \<noteq> k \<Longrightarrow> get_prop (simpleCopy_round ob t s k h a) k' = get_prop (h a) k'"
  by (auto simp: simpleCopy_round_def get_set_prop)

lemma simpleCopy_round_frame: "a \<noteq> t \<Longrightarrow> simpleCopy_round ob t s k h a = h a"
  by (auto simp: simpleCopy_round_def)

lemma simpleCopy_round_map_of:
  "map_of (simpleCopy_round ob t s k h t) k' =
     (if k' = k \<and> hasOwnProperty ob k then Some (get_prop (h s) k) else map_of (h t) k')"
  by (auto simp: simpleCopy_round_def map_of_set_prop)

lemma fold_simpleCopy_round:
  "distinct ks \<Longrightarrow>
     (\<forall>a. a \<noteq> t \<longrightarrow> fold (simpleCopy_round ob t s) ks h a = h a) \<and>
     (\<forall>k'. map_of (fold (simpleCopy_round ob t s) ks h t) k' =
        (if k' \<in> set ks \<and> hasOwnProperty ob k' then Some (get_prop (h s) k')
         else map_of (h t) k'))"
proof (induction ks arbitrary: h)
  case Nil
  then show ?case by simp
next
  case (Cons k ks)
  let ?h1 = "simpleCopy_round ob t s k h"
  from Cons.prems have d: "distinct ks" and nk: "k \<notin> set ks" by simp_all
  note IH = Cons.IH [OF d, of ?h1]
  show ?case
  proof (intro conjI allI impI)
    fix a assume "a \<noteq> t"
    then show "fold (simpleCopy_round ob t s) (k # ks) h a = h a"
      using IH by (simp add: simpleCopy_round_frame)
  next
    fix k'
    show "map_of (fold (simpleCopy_round ob t s) (k # ks) h t) k' =
        (if k' \<in> set (k # ks) \<and> hasOwnProperty ob k' then Some (get_prop (h s) k')
         else map_of (h t) k')"
    proof (cases "k' \<in> set ks")
      case True
      then have "k' \<noteq> k" using nk by auto
      then show ?thesis using IH True
        by (simp add: simpleCopy_round_get_other simpleCopy_round_map_of)
    next
      case False
      then show ?thesis using IH
        by (auto simp add: simpleCopy_round_map_of)
    qed
  qed
qed

lemma simpleCopy_fold:
  "simpleCopy t s h = fold (simpleCopy_round (h s) t s) (for_in (h s)) h"
  unfolding simpleCopy_def each_def simpleCopy_round_def ..

lemma simpleCopy_map_of:
  "map_of (simpleCopy t s h t) k =
     (if hasOwnProperty (h s) k then Some (get_prop (h s) k) else map_of (h t) k)"
  using fold_simpleCopy_round
    [where ks = "for_in (h s)" and ob = "h s" and t = t and s = s and h = h, OF distinct_for_in]
  by (simp add: simpleCopy_fold set_for_in)




subsection \<open>Filters and hooks\<close>

lemma run_all_append:
  "run_all beh (xs @ ys) args h = run_all beh ys args (run_all beh xs args h)"
  by (simp add: run_all_def)

lemma applyFilter_round_eq:
  "applyFilter_round beh filterName args reg k w =
     w\<lparr>heap := run_all beh (map snd (group_fn filterName reg k)) args (heap w),
       trace := trace w @
         map (\<lambda>nf. Called (FilterRole (fst nf) filterName) (snd nf) args)
           (group_fn filterName reg k)\<rparr>"
  by (auto simp: applyFilter_round_def group_fn_def call_fn_def run_all_def hasOwnProperty_def
      split: option.splits)

lemma fold_applyFilter_round:
  "fold (applyFilter_round beh filterName args reg) ks w =
     w\<lparr>heap := run_all beh (map snd (concat (map (group_fn filterName reg) ks))) args (heap w),
       trace := trace w @
         map (\<lambda>nf. Called (FilterRole (fst nf) filterName) (snd nf) args)
           (concat (map (group_fn filterName reg) ks))\<rparr>"
proof (induction ks arbitrary: w)
  case Nil
  show ?case by (simp add: run_all_def)
next
  case (Cons k ks)
  show ?case
    by (simp add: Cons.IH) (simp add: applyFilter_round_eq run_all_append)
qed

lemma applyFilter_fold:
  "applyFilter beh filterName args w =
     fold (applyFilter_round beh filterName args (filter_registry w)) (for_in (filter_registry w)) w"
  unfolding applyFilter_def each_def applyFilter_round_def ..

text \<open>\<open>applyFilter\<close> calls the filters of the name, in the order of the registry, and
  touches nothing but the heap they write.\<close>

lemma applyFilter_eq:
  "applyFilter beh filterName args w =
     w\<lparr>heap := run_all beh (map snd (filter_fns (filter_registry w) filterName)) args (heap w),
       trace := trace w @ filter_calls (filter_registry w) filterName args\<rparr>"
  by (simp add: applyFilter_fold fold_applyFilter_round filter_fns_def filter_calls_def)

lemma invokeHook_eq:
  "invokeHook beh hookName fs args w =
     w\<lparr>heap := run_all beh fs args (heap w),
       trace := trace w @ map (\<lambda>f. Called (HookRole hookName) f args) fs\<rparr>"
  unfolding invokeHook_def
proof (induction fs arbitrary: w)
  case Nil
  show ?case by (simp add: run_all_def)
next
  case (Cons f fs)
  show ?case by (simp add: Cons.IH) (simp add: call_fn_def run_all_def)
qed

lemma filter_fns_empty: "filter_fns [] filterName = []"
  by (simp add: filter_fns_def for_in_def own_names_def)

subsection \<open>The order of a tick\<close>

text \<open>A tick whose continue condition holds, as one equation.\<close>

lemma tick_equation:
  assumes "js_lt (time_val now) (js_add (timestamp p) (duration p))" and "isAnimating s"
  shows "timeoutHandler beh now p s w =
     (s\<lparr>loopId := nextTimer w\<rparr>,
      w\<lparr>heap :=
          run_fn beh (step p) [current s]
            (run_all beh (hook_fns (hook w) ''step'') [current s]
              (run_all beh (map snd (filter_fns (filter_registry w) ''afterTween''))
                 [current s, originalState p, to p]
                 (tweenProps (time_val now) p s
                    (run_all beh (map snd (filter_fns (filter_registry w) ''beforeTween''))
                       [current s, originalState p, to p] (heap w))))),
        timers := timers w @ [(nextTimer w, js_div (Number (Num 1000)) (fps p))],
        nextTimer := Suc (nextTimer w),
        trace :=
          trace w
          @ filter_calls (filter_registry w) ''beforeTween'' [current s, originalState p, to p]
          @ [Interpolated]
          @ filter_calls (filter_registry w) ''afterTween'' [current s, originalState p, to p]
          @ hook_calls (hook w) ''step'' [current s]
          @ [Called StepRole (step p) [current s],
             SetTimeout (nextTimer w) (js_div (Number (Num 1000)) (fps p))]\<rparr>)"
  using assms
  by (simp add: timeoutHandler_def Let_def scheduleUpdate_def setTimeout_def call_fn_def
      hook_calls_def hook_fns_def applyFilter_eq invokeHook_eq run_all_def
      split: option.splits)

text \<open>
  Claim C8. On a tick whose continue condition holds (the clock is before
  \<open>timestamp + duration\<close> and \<open>isAnimating\<close> is set), the effects are these, in this
  order, each once, and there is no other: the \<open>beforeTween\<close> filters run on the heap
  the tick found; the interpolation step runs on the heap they leave; the \<open>afterTween\<close>
  filters run on its result; then every entry of the \<open>step\<close> hook list (none if no such
  list is registered); then the run's \<open>step\<close> callback; then the next timeout is set
  and its handle stored in \<open>loopId\<close>. The trace lists the calls in the same order. The
  registry and the objects handed to the interpolation step are plain.
\<close>

theorem tick_order:
  assumes "js_lt (time_val now) (js_add (timestamp p) (duration p))" and "isAnimating s"
    and "plain (filter_registry w)"
    and "plain (run_all beh (map snd (filter_fns (filter_registry w) ''beforeTween''))
                  [current s, originalState p, to p] (heap w) (current s))"
    and "plain (run_all beh (map snd (filter_fns (filter_registry w) ''beforeTween''))
                  [current s, originalState p, to p] (heap w) (to p))"
  shows "timeoutHandler beh now p s w =
     (s\<lparr>loopId := nextTimer w\<rparr>,
      w\<lparr>heap :=
          run_fn beh (step p) [current s]
            (run_all beh (hook_fns (hook w) ''step'') [current s]
              (run_all beh (map snd (filter_fns (filter_registry w) ''afterTween''))
                 [current s, originalState p, to p]
                 (tweenProps (time_val now) p s
                    (run_all beh (map snd (filter_fns (filter_registry w) ''beforeTween''))
                       [current s, originalState p, to p] (heap w))))),
        timers := timers w @ [(nextTimer w, js_div (Number (Num 1000)) (fps p))],
        nextTimer := Suc (nextTimer w),
        trace :=
          trace w
          @ filter_calls (filter_registry w) ''beforeTween'' [current s, originalState p, to p]
          @ [Interpolated]
          @ filter_calls (filter_registry w) ''afterTween'' [current s, originalState p, to p]
          @ hook_calls (hook w) ''step'' [current s]
          @ [Called StepRole (step p) [current s],
             SetTimeout (nextTimer w) (js_div (Number (Num 1000)) (fps p))]\<rparr>)"
  using assms(1,2) by (rule tick_equation)

lemmas run_defs = init_def start_def tween_def is_animating_def is_paused_def
  alloc_def normalize_args_def or_empty_def fn_or_def str_or_def js_or_def simpleCopy_def
  each_def for_in_def own_names_def array_index_def digit_def decimal_def hasOwnProperty_def
  get_prop_def set_prop_def applyFilter_def
  scheduleUpdate_def setTimeout_def clearTimeout_def js_div_def js_add_def js_sub_def
  js_mul_def js_lt_def time_val_def resolve_easing_def fire_def timeoutHandler_def
  tweenProps_def tweenProps_body_def interpolate_def formula_linear_def call_fn_def
  invokeHook_def stop_def pause_def resume_def controller_stop_def controller_pause_def
  controller_resume_def current_prop_def returned_def object_at_def hookAdd_def Let_def

lemmas example_defs = demo_world_def demo_heap_def demo_args_def short_args_def inert_def
  callback_args_def
  hooked_world_def hooked_args_def fromless_args_def

lemmas ordered_defs = ordered_started_def ordered_world_def ordered_heap_def
  ordered_params_def ordered_state_def hooked_args_def ordered_registry_def

lemma ordered_started_fields:
  "run ordered_started = Some (ordered_params, ordered_state)"
  "filter_registry ordered_started = ordered_registry"
  "hook ordered_started = [(''step'', [Fn 20])]"
  "nextTimer ordered_started = 2"
  "timers ordered_started = [(1, Number (Num (100 / 3)))]"
  "trace ordered_started =
     [Called (FilterRole ''color'' ''tweenCreated'') (Fn 13) [0, 3, 1],
      SetTimeout 1 (Number (Num (100 / 3)))]"
  "heap ordered_started 0 = [(''x'', Number (Num 10))]"
  "heap ordered_started 1 = [(''x'', Number (Num 100))]"
  "heap ordered_started (Suc 0) = [(''x'', Number (Num 100))]"
  "heap ordered_started 3 = [(''x'', Number (Num 20))]"
  by (simp_all add: run_defs ordered_defs)

lemma ordered_for_in: "for_in ordered_registry = [''7'', ''color'']"
  by (simp add: ordered_registry_def for_in_def own_names_def array_index_def digit_def
      decimal_def)

lemma ordered_filter_fns:
  "filter_fns ordered_registry ''beforeTween'' = [(''7'', Fn 12), (''color'', Fn 10)]"
  "filter_fns ordered_registry ''afterTween'' = [(''color'', Fn 11)]"
  by (simp_all add: filter_fns_def ordered_for_in group_fn_def)
     (simp_all add: ordered_registry_def)

theorem tick_order_witness:
  "js_lt (time_val 600) (js_add (timestamp ordered_params) (duration ordered_params))
   \<and> isAnimating ordered_state
   \<and> plain (filter_registry ordered_started)
   \<and> plain (run_all writing (map snd (filter_fns (filter_registry ordered_started) ''beforeTween''))
               [current ordered_state, originalState ordered_params, to ordered_params]
               (heap ordered_started) (current ordered_state))
   \<and> plain (run_all writing (map snd (filter_fns (filter_registry ordered_started) ''beforeTween''))
               [current ordered_state, originalState ordered_params, to ordered_params]
               (heap ordered_started) (to ordered_params))
   \<and> fst (timeoutHandler writing 600 ordered_params ordered_state ordered_started)
       = ordered_state\<lparr>loopId := 2\<rparr>
   \<and> heap (snd (timeoutHandler writing 600 ordered_params ordered_state ordered_started)) 0
       = [(''x'', Number (Num 222)), (''seen'', Number (Num 222))]
   \<and> heap (snd (timeoutHandler writing 600 ordered_params ordered_state ordered_started)) 1
       = [(''x'', Number (Num 200))]
   \<and> timers (snd (timeoutHandler writing 600 ordered_params ordered_state ordered_started))
       = [(1, Number (Num (100 / 3))), (2, Number NaN)]
   \<and> trace (snd (timeoutHandler writing 600 ordered_params ordered_state ordered_started)) =
       [Called (FilterRole ''color'' ''tweenCreated'') (Fn 13) [0, 3, 1],
        SetTimeout 1 (Number (Num (100 / 3))),
        Called (FilterRole ''7'' ''beforeTween'') (Fn 12) [0, 3, 1],
        Called (FilterRole ''color'' ''beforeTween'') (Fn 10) [0, 3, 1],
        Interpolated,
        Called (FilterRole ''color'' ''afterTween'') (Fn 11) [0, 3, 1],
        Called (HookRole ''step'') (Fn 20) [0],
        Called StepRole (Fn 30) [0],
        SetTimeout 2 (Number NaN)]"
proof -
  have c: "js_lt (time_val 600) (js_add (timestamp ordered_params) (duration ordered_params))"
    by (simp add: ordered_params_def js_lt_def js_add_def time_val_def)
  have a: "isAnimating ordered_state" by (simp add: ordered_state_def)
  have r: "plain (filter_registry ordered_started)"
    by (simp add: ordered_started_fields ordered_registry_def plain_def)
  have before:
    "run_all writing (map snd (filter_fns (filter_registry ordered_started) ''beforeTween''))
       [current ordered_state, originalState ordered_params, to ordered_params]
       (heap ordered_started)
     = (heap ordered_started)(1 := [(''x'', Number (Num 200))])"
    by (simp add: ordered_started_fields ordered_filter_fns run_all_def ordered_params_def
        ordered_state_def set_prop_def fun_eq_iff)
  have pc: "plain (run_all writing (map snd (filter_fns (filter_registry ordered_started) ''beforeTween''))
               [current ordered_state, originalState ordered_params, to ordered_params]
               (heap ordered_started) (current ordered_state))"
    by (simp add: before) (simp add: ordered_state_def ordered_started_fields plain_def)
  have pt: "plain (run_all writing (map snd (filter_fns (filter_registry ordered_started) ''beforeTween''))
               [current ordered_state, originalState ordered_params, to ordered_params]
               (heap ordered_started) (to ordered_params))"
    by (simp add: before) (simp add: ordered_params_def plain_def)
  have interp:
    "tweenProps (time_val 600) ordered_params ordered_state
       ((heap ordered_started)(1 := [(''x'', Number (Num 200))]))
     = (heap ordered_started)(1 := [(''x'', Number (Num 200))], 0 := [(''x'', Number (Num 110))])"
    by (simp add: tweenProps_def tweenProps_body_def interpolate_def ordered_params_def
        ordered_state_def ordered_started_fields for_in_def own_names_def array_index_def
        digit_def hasOwnProperty_def get_prop_def set_prop_def formula_linear_def js_add_def
        js_sub_def js_mul_def js_div_def time_val_def)
  have after:
    "run_all writing (map snd (filter_fns (filter_registry ordered_started) ''afterTween''))
       [current ordered_state, originalState ordered_params, to ordered_params]
       ((heap ordered_started)(1 := [(''x'', Number (Num 200))], 0 := [(''x'', Number (Num 110))]))
     = (heap ordered_started)(1 := [(''x'', Number (Num 200))], 0 := [(''x'', Number (Num 111))])"
    by (simp add: ordered_started_fields ordered_filter_fns run_all_def ordered_params_def
        ordered_state_def set_prop_def get_prop_def js_add_def fun_eq_iff)
  have hooks:
    "run_all writing (hook_fns (hook ordered_started) ''step'') [current ordered_state]
       ((heap ordered_started)(1 := [(''x'', Number (Num 200))], 0 := [(''x'', Number (Num 111))]))
     = (heap ordered_started)(1 := [(''x'', Number (Num 200))], 0 := [(''x'', Number (Num 222))])"
    by (simp add: ordered_started_fields hook_fns_def run_all_def ordered_state_def
        set_prop_def get_prop_def js_mul_def fun_eq_iff)
  have stepcb:
    "run_fn writing (step ordered_params) [current ordered_state]
       ((heap ordered_started)(1 := [(''x'', Number (Num 200))], 0 := [(''x'', Number (Num 222))]))
     = (heap ordered_started)
         (1 := [(''x'', Number (Num 200))],
          0 := [(''x'', Number (Num 222)), (''seen'', Number (Num 222))])"
    by (simp add: ordered_params_def ordered_state_def set_prop_def get_prop_def fun_eq_iff)
  have calls:
    "filter_calls (filter_registry ordered_started) ''beforeTween''
       [current ordered_state, originalState ordered_params, to ordered_params]
     = [Called (FilterRole ''7'' ''beforeTween'') (Fn 12) [0, 3, 1],
        Called (FilterRole ''color'' ''beforeTween'') (Fn 10) [0, 3, 1]]"
    "filter_calls (filter_registry ordered_started) ''afterTween''
       [current ordered_state, originalState ordered_params, to ordered_params]
     = [Called (FilterRole ''color'' ''afterTween'') (Fn 11) [0, 3, 1]]"
    "hook_calls (hook ordered_started) ''step'' [current ordered_state]
     = [Called (HookRole ''step'') (Fn 20) [0]]"
    by (simp_all add: ordered_started_fields ordered_filter_fns filter_calls_def hook_calls_def
        hook_fns_def ordered_params_def ordered_state_def)
  note eq = tick_order [OF c a r pc pt, unfolded before interp after hooks stepcb calls]
  show ?thesis
    using c a r pc pt
    by (simp add: eq)
       (simp add: ordered_started_fields ordered_params_def ordered_state_def js_div_def)
qed

subsection \<open>One run at a time\<close>

text \<open>
  Claim C4. On an instance whose state has \<open>isAnimating\<close> set, a call of \<open>tween()\<close>
  returns no controller and leaves the world as it is: no run is created, and the run in
  flight keeps its \<open>current\<close>, \<open>to\<close> and \<open>duration\<close> (and every object of the heap).
\<close>

theorem tween_while_animating:
  "is_animating w \<Longrightarrow> tween beh now args w = (NoController, w)"
  by (simp add: tween_def)

theorem tween_while_animating_witness:
  "is_animating (snd (tween inert 0 demo_args demo_world))
   \<and> tween inert 5 short_args (snd (tween inert 0 demo_args demo_world))
       = (NoController, snd (tween inert 0 demo_args demo_world))"
proof -
  have a: "is_animating (snd (tween inert 0 demo_args demo_world))"
    by (simp add: run_defs example_defs)
  show ?thesis using a tween_while_animating [OF a, of inert 5 short_args] by simp
qed

subsection \<open>Pause and resume\<close>

text \<open>
  Claim C1 says that the interpolated position after \<open>pause()\<close> and \<open>resume()\<close> depends
  only on the time spent not paused: the tween from \<open>{x: 0}\<close> to \<open>{x: 100}\<close> over 1000
  milliseconds, paused at 200 for 500 milliseconds, should stand at \<open>x = 20\<close> when it
  resumes and reach \<open>x = 100\<close> at 1500. The run below starts at time 0, ticks at 100
  and 200, is paused at 200 (\<open>x = 20\<close>) and resumed at 700. Line 177 leaves
  \<open>timestamp = pausedAtTime = 200\<close>, so the tick at 700 computes with an elapsed time of
  500 and jumps to \<open>x = 50\<close>, and the tick at 1200 finds the run over and completes it at
  \<open>x = 100\<close>.
\<close>

theorem resume_restarts_at_pause_time:
  "(start inert 0 demo_args demo_world \<bind> fire inert 100 1 \<bind> fire inert 200 2
      \<bind> controller_pause 200 \<bind> current_prop ''x'') = Some (Number (Num 20))
   \<and> (start inert 0 demo_args demo_world \<bind> fire inert 100 1 \<bind> fire inert 200 2
      \<bind> controller_pause 200 \<bind> controller_resume \<bind> fire inert 700 4
      \<bind> current_prop ''x'') = Some (Number (Num 50))
   \<and> (start inert 0 demo_args demo_world \<bind> fire inert 100 1 \<bind> fire inert 200 2
      \<bind> controller_pause 200 \<bind> controller_resume \<bind> fire inert 700 4
      \<bind> fire inert 1200 5 \<bind> current_prop ''x'') = Some (Number (Num 100))
   \<and> map_option is_animating
       (start inert 0 demo_args demo_world \<bind> fire inert 100 1 \<bind> fire inert 200 2
          \<bind> controller_pause 200 \<bind> controller_resume \<bind> fire inert 700 4
          \<bind> fire inert 1200 5) = Some False"
  by (simp add: run_defs example_defs)

subsection \<open>The delay of a reschedule\<close>

text \<open>
  Claim C2 says that the reschedule at the end of a tick and the one \<open>resume()\<close> makes
  both ask for a delay of \<open>1000 / fps\<close> milliseconds, \<open>fps\<close> being the instance's frame
  rate. On the instance made with no options \<open>1000 / fps\<close> is \<open>1000 / 30\<close>, and the
  timeout \<open>tween()\<close> sets asks for it. The timeout the tick at time 100 sets asks for
  \<open>1000 / params.fps\<close> with \<open>params.fps\<close> never assigned, and the one \<open>resume()\<close> sets
  for \<open>1000 / undefined\<close>: both delays are \<open>NaN\<close>.
\<close>

theorem reschedule_delay_is_NaN:
  "js_div (Number (Num 1000)) (this_fps demo_world) = Number (Num (100 / 3))
   \<and> map_option timers (start inert 0 demo_args demo_world)
       = Some [(1, Number (Num (100 / 3)))]
   \<and> map_option timers (start inert 0 demo_args demo_world \<bind> fire inert 100 1)
       = Some [(2, Number NaN)]
   \<and> map_option timers
       (start inert 0 demo_args demo_world \<bind> fire inert 100 1 \<bind> controller_pause 200
          \<bind> controller_resume) = Some [(3, Number NaN)]"
  by (simp add: run_defs example_defs)

subsection \<open>Stopping\<close>

text \<open>
  Claim C5 says that \<open>stop()\<close> without \<open>gotoEnd\<close> cancels further ticks, leaves
  \<open>current\<close> as last computed and never invokes the callback (and that \<open>stop(true)\<close>
  copies \<open>to\<close> into \<open>current\<close>, clears \<open>isAnimating\<close> and invokes the callback, which
  the code does). When \<open>stop()\<close> is called before the first tick, \<open>loopId\<close> is still
  the 0 of line 246: the timeout set at line 276 stays pending. When it fires at time 34
  the tick moves \<open>x\<close> from 0 to 3.4 and sets the next timeout, and when that one fires
  at time 1000 the run completes: \<open>x\<close> is 100 and the callback \<open>done\<close> (\<open>Fn 40\<close>) is
  called.
\<close>

theorem stop_before_first_tick_cancels_nothing:
  "map_option timers (start inert 0 callback_args demo_world \<bind> controller_stop inert False)
     = Some [(1, Number (Num (100 / 3)))]
   \<and> (start inert 0 callback_args demo_world \<bind> controller_stop inert False
        \<bind> current_prop ''x'') = Some (Number (Num 0))
   \<and> (start inert 0 callback_args demo_world \<bind> controller_stop inert False
        \<bind> fire inert 34 1 \<bind> current_prop ''x'') = Some (Number (Num (17 / 5)))
   \<and> map_option timers
       (start inert 0 callback_args demo_world \<bind> controller_stop inert False
          \<bind> fire inert 34 1) = Some [(2, Number NaN)]
   \<and> (start inert 0 callback_args demo_world \<bind> controller_stop inert False
        \<bind> fire inert 34 1 \<bind> fire inert 1000 2 \<bind> current_prop ''x'')
       = Some (Number (Num 100))
   \<and> map_option trace
       (start inert 0 callback_args demo_world \<bind> controller_stop inert False
          \<bind> fire inert 34 1 \<bind> fire inert 1000 2)
       = Some [SetTimeout 1 (Number (Num (100 / 3))), ClearTimeout 0, Interpolated,
               Called StepRole Noop [0], SetTimeout 2 (Number NaN), ClearTimeout 2,
               Called CallbackRole (Fn 40) [0]]"
  by (simp add: run_defs example_defs)

text \<open>
  Claim C9 says that after \<open>stop()\<close> without \<open>gotoEnd\<close> the flag \<open>isAnimating\<close> stays
  set with no tick scheduled, so that every later \<open>tween()\<close> on the instance returns no
  controller. For a tween of 20 milliseconds stopped before its first tick, the flag is
  set after \<open>stop()\<close> but the first timeout is still pending; it fires at time 34, after
  the duration, completes the run and clears the flag, and the \<open>tween()\<close> at time 40
  returns a controller.
\<close>

theorem stopped_instance_tweens_again:
  "map_option is_animating
     (start inert 0 short_args demo_world \<bind> controller_stop inert False) = Some True
   \<and> map_option timers (start inert 0 short_args demo_world \<bind> controller_stop inert False)
       = Some [(1, Number (Num (100 / 3)))]
   \<and> map_option is_animating
       (start inert 0 short_args demo_world \<bind> controller_stop inert False \<bind> fire inert 34 1)
       = Some False
   \<and> (start inert 0 short_args demo_world \<bind> controller_stop inert False \<bind> fire inert 34 1
        \<bind> returned inert 40 short_args) = Some Controller"
  by (simp add: run_defs example_defs)

subsection \<open>The \<open>from\<close> object\<close>


lemmas tween_unfold = tween_def Let_def split_def normalize_args_def or_empty_def alloc_def
  from_arg_def scheduleUpdate_def setTimeout_def




text \<open>On that instance the \<open>tweenCreated\<close> filter of the group \<open>color\<close> sets
  \<open>originalState.x = 20\<close>: after the call \<open>from\<close> still holds \<open>x = 10\<close> and is
  \<open>current\<close>, and \<open>originalState\<close> is the object at reference 3.\<close>

lemma ordered_started_objects:
  "current_prop ''x'' ordered_started = Some (Number (Num 10))"
  "object_at 0 ordered_started = Some [(''x'', Number (Num 10))]"
  "object_at 3 ordered_started = Some [(''x'', Number (Num 20))]"
  by (simp_all add: current_prop_def object_at_def ordered_started_fields ordered_state_def
      get_prop_def)

subsection \<open>What the controller does\<close>

text \<open>
  Extra X1. \<open>stop(true)\<close>, when \<open>to\<close> is plain: the timeout of \<open>loopId\<close> is cleared;
  every property of \<open>to\<close> is copied into the object \<open>current\<close> refers to, whose other
  properties stay (the reference \<open>current\<close> is the same); \<open>isAnimating\<close> is cleared; and
  the callback is called once, on \<open>current\<close>, after the copy.
\<close>

theorem stop_gotoEnd:
  assumes "plain (heap w (to p))"
  shows "fst (stop beh True p s w) = s\<lparr>isAnimating := False\<rparr>
   \<and> trace (snd (stop beh True p s w)) =
       trace w @ [ClearTimeout (loopId s), Called CallbackRole (callback p) [current s]]
   \<and> heap (snd (stop beh True p s w)) =
       run_fn beh (callback p) [current s] (simpleCopy (current s) (to p) (heap w))
   \<and> map_of (simpleCopy (current s) (to p) (heap w) (current s)) key =
       (if hasOwnProperty (heap w (to p)) key then Some (get_prop (heap w (to p)) key)
        else map_of (heap w (current s)) key)
   \<and> timers (snd (stop beh True p s w)) = filter (\<lambda>t. fst t \<noteq> loopId s) (timers w)"
  by (simp add: stop_def Let_def call_fn_def clearTimeout_def simpleCopy_map_of)

theorem stop_gotoEnd_witness:
  "plain (heap demo_world (to demo_params))
   \<and> fst (stop inert True demo_params demo_state demo_world) = demo_state\<lparr>isAnimating := False\<rparr>
   \<and> trace (snd (stop inert True demo_params demo_state demo_world)) =
       trace demo_world
       @ [ClearTimeout (loopId demo_state), Called CallbackRole (callback demo_params) [current demo_state]]
   \<and> heap (snd (stop inert True demo_params demo_state demo_world)) =
       run_fn inert (callback demo_params) [current demo_state]
         (simpleCopy (current demo_state) (to demo_params) (heap demo_world))
   \<and> map_of (simpleCopy (current demo_state) (to demo_params) (heap demo_world) (current demo_state)) ''x'' =
       (if hasOwnProperty (heap demo_world (to demo_params)) ''x''
        then Some (get_prop (heap demo_world (to demo_params)) ''x'')
        else map_of (heap demo_world (current demo_state)) ''x'')
   \<and> timers (snd (stop inert True demo_params demo_state demo_world)) =
       filter (\<lambda>t. fst t \<noteq> loopId demo_state) (timers demo_world)"
proof -
  have 1: "plain (heap demo_world (to demo_params))"
    by (simp add: demo_world_def init_def demo_heap_def demo_params_def plain_def)
  show ?thesis by (rule conjI [OF 1 stop_gotoEnd [OF 1]])
qed

text \<open>
  Extra X2. \<open>stop()\<close> and \<open>stop(false)\<close>: the timeout of \<open>loopId\<close> is cleared and nothing else
  happens. The state (\<open>isAnimating\<close> with it) and the heap are as before, and no
  function is called.
\<close>

theorem stop_without_gotoEnd:
  "fst (stop beh False p s w) = s
   \<and> heap (snd (stop beh False p s w)) = heap w
   \<and> trace (snd (stop beh False p s w)) = trace w @ [ClearTimeout (loopId s)]
   \<and> timers (snd (stop beh False p s w)) = filter (\<lambda>t. fst t \<noteq> loopId s) (timers w)"
  by (simp add: stop_def Let_def clearTimeout_def)

text \<open>
  Extra X3. \<open>resume()\<close> of a paused run sets \<open>timestamp\<close> to the time of the pause, whatever it
  was before, and asks for a timeout with the delay \<open>NaN\<close>.
\<close>

theorem resume_timestamp:
  assumes "isPaused s" and "timestamp p = time_val t0" and "pausedAtTime s = time_val t1"
  shows "timestamp (fst (resume p s w)) = time_val t1
     \<and> timers (snd (resume p s w)) = timers w @ [(nextTimer w, Number NaN)]"
  using assms
  by (simp add: resume_def Let_def scheduleUpdate_def setTimeout_def js_add_def js_sub_def
      js_div_def time_val_def)

theorem resume_timestamp_witness:
  "isPaused paused_state \<and> timestamp demo_params = time_val 0
   \<and> pausedAtTime paused_state = time_val 200
   \<and> timestamp (fst (resume demo_params paused_state demo_world)) = time_val 200
   \<and> timers (snd (resume demo_params paused_state demo_world)) = [(1, Number NaN)]"
proof -
  have 1: "isPaused paused_state" by (simp add: paused_state_def)
  have 2: "timestamp demo_params = time_val 0" by (simp add: demo_params_def)
  have 3: "pausedAtTime paused_state = time_val 200" by (simp add: paused_state_def)
  show ?thesis
    using 1 2 3 resume_timestamp [OF 1 2 3, of demo_world]
    by (simp add: demo_world_def init_def)
qed

text \<open>
  Extra X4. A tick that continues, on parameters whose \<open>fps\<close> was never assigned and
  with a plain registry and plain objects handed to the interpolation step, sets a
  timeout with the delay \<open>NaN\<close> and keeps its handle in \<open>loopId\<close>; \<open>tween()\<close> leaves
  \<open>fps\<close> unassigned on the parameters of every run it starts.
\<close>

theorem tick_reschedule:
  assumes "js_lt (time_val now) (js_add (timestamp p) (duration p))" and "isAnimating s"
    and "fps p = Undefined" and "\<not> is_animating w0"
    and "plain (filter_registry w)"
    and "plain (run_all beh (map snd (filter_fns (filter_registry w) ''beforeTween''))
                  [current s, originalState p, to p] (heap w) (current s))"
    and "plain (run_all beh (map snd (filter_fns (filter_registry w) ''beforeTween''))
                  [current s, originalState p, to p] (heap w) (to p))"
  shows "timers (snd (timeoutHandler beh now p s w)) = timers w @ [(nextTimer w, Number NaN)]
     \<and> loopId (fst (timeoutHandler beh now p s w)) = nextTimer w
     \<and> map_option (fps \<circ> fst) (run (snd (tween beh now args w0))) = Some Undefined"
proof -
  have "map_option (fps \<circ> fst) (run (snd (tween beh now args w0))) = Some Undefined"
    using assms(4) by (cases args) (simp_all add: tween_unfold)
  then show ?thesis
    using assms(3) by (simp add: tick_equation [OF assms(1,2)] js_div_def)
qed

theorem tick_reschedule_witness:
  "js_lt (time_val 100) (js_add (timestamp demo_params) (duration demo_params))
   \<and> isAnimating demo_state \<and> fps demo_params = Undefined \<and> \<not> is_animating demo_world
   \<and> plain (filter_registry demo_world)
   \<and> plain (run_all inert (map snd (filter_fns (filter_registry demo_world) ''beforeTween''))
               [current demo_state, originalState demo_params, to demo_params]
               (heap demo_world) (current demo_state))
   \<and> plain (run_all inert (map snd (filter_fns (filter_registry demo_world) ''beforeTween''))
               [current demo_state, originalState demo_params, to demo_params]
               (heap demo_world) (to demo_params))
   \<and> timers (snd (timeoutHandler inert 100 demo_params demo_state demo_world)) = [(1, Number NaN)]
   \<and> loopId (fst (timeoutHandler inert 100 demo_params demo_state demo_world)) = 1
   \<and> map_option (fps \<circ> fst) (run (snd (tween inert 100 demo_args demo_world))) = Some Undefined"
proof -
  have 1: "js_lt (time_val 100) (js_add (timestamp demo_params) (duration demo_params))"
    by (simp add: demo_params_def js_lt_def js_add_def time_val_def)
  have 2: "isAnimating demo_state" by (simp add: demo_state_def)
  have 3: "fps demo_params = Undefined" by (simp add: demo_params_def)
  have 4: "\<not> is_animating demo_world" by (simp add: demo_world_def init_def is_animating_def)
  have reg: "filter_registry demo_world = []" by (simp add: demo_world_def init_def)
  have 5: "plain (filter_registry demo_world)" by (simp add: reg plain_def)
  have 6: "plain (run_all inert (map snd (filter_fns (filter_registry demo_world) ''beforeTween''))
               [current demo_state, originalState demo_params, to demo_params]
               (heap demo_world) (current demo_state))"
    by (simp add: reg filter_fns_empty run_all_def)
       (simp add: demo_world_def init_def demo_heap_def demo_state_def plain_def)
  have 7: "plain (run_all inert (map snd (filter_fns (filter_registry demo_world) ''beforeTween''))
               [current demo_state, originalState demo_params, to demo_params]
               (heap demo_world) (to demo_params))"
    by (simp add: reg filter_fns_empty run_all_def)
       (simp add: demo_world_def init_def demo_heap_def demo_params_def plain_def)
  have n: "timers demo_world = []" "nextTimer demo_world = 1"
    by (simp_all add: demo_world_def init_def)
  show ?thesis
    using 1 2 3 4 5 6 7 tick_reschedule [OF 1 2 3 4 5 6 7, of demo_args]
    by (simp add: n)
qed

text \<open>
  Extra X5. When the only pending timeout is the one whose handle \<open>loopId\<close> holds, as it is after
  a tick that continued, \<open>stop()\<close> without \<open>gotoEnd\<close> leaves no timeout pending and
  \<open>isAnimating\<close> set, and a call of \<open>tween()\<close> then returns no controller and changes
  nothing.
\<close>

theorem stop_then_tween_rejected:
  assumes "run w = Some (p, s)" and "isAnimating s"
    and "filter (\<lambda>t. fst t \<noteq> loopId s) (timers w) = []"
  shows "\<exists>w'. controller_stop beh False w = Some w' \<and> timers w' = [] \<and> is_animating w'
           \<and> tween beh now args w' = (NoController, w')"
  using assms
  by (simp add: controller_stop_def stop_def Let_def clearTimeout_def is_animating_def tween_def)

lemma ticked_world_facts:
  "run ticked_world = Some (demo_params, ticked_state)"
  "timers ticked_world = [(2, Number NaN)]"
  by (simp_all add: ticked_world_def ticked_state_def demo_params_def demo_state_def
      run_defs example_defs)

theorem stop_then_tween_rejected_witness:
  "run ticked_world = Some (demo_params, ticked_state) \<and> isAnimating ticked_state
   \<and> filter (\<lambda>t. fst t \<noteq> loopId ticked_state) (timers ticked_world) = []
   \<and> (\<exists>w'. controller_stop inert False ticked_world = Some w' \<and> timers w' = []
          \<and> is_animating w' \<and> tween inert 300 demo_args w' = (NoController, w'))"
proof -
  have 1: "run ticked_world = Some (demo_params, ticked_state)" by (rule ticked_world_facts)
  have 2: "isAnimating ticked_state" by (simp add: ticked_state_def demo_state_def)
  have 3: "filter (\<lambda>t. fst t \<noteq> loopId ticked_state) (timers ticked_world) = []"
    by (simp add: ticked_world_facts ticked_state_def)
  show ?thesis
    using 1 2 3 stop_then_tween_rejected [OF 1 2 3, of inert 300 demo_args] by simp
qed

lemma ticked_world_reached:
  "(start inert 0 demo_args demo_world \<bind> fire inert 100 1) = Some ticked_world"
  by (simp add: ticked_world_def ticked_state_def demo_params_def demo_state_def
      run_defs example_defs)

text \<open>
  Extra X6. On a plain hook object, \<open>hookRemove\<close> returns in two cases only: the named
  list is not registered (nothing changes), or no callback is given (the named list is
  emptied).
\<close>

theorem hookRemove_returns:
  assumes "plain (hook w)"
  shows "(map_of (hook w) hookName = None \<longrightarrow> hookRemove hookName hookFunc w = Some w)
   \<and> (map_of (hook w) hookName \<noteq> None \<longrightarrow>
        hookRemove hookName None w = Some (w\<lparr>hook := AList.update hookName [] (hook w)\<rparr>))"
  by (auto simp add: hookRemove_def)

theorem hookRemove_returns_witness:
  "plain (hook hooked_world)
   \<and> map_of (hook hooked_world) ''done'' = None
   \<and> hookRemove ''done'' (Some (Fn 20)) hooked_world = Some hooked_world
   \<and> map_of (hook hooked_world) ''step'' \<noteq> None
   \<and> map_option hook (hookRemove ''step'' None hooked_world) = Some [(''step'', [])]"
proof -
  have h: "hook hooked_world = [(''step'', [Fn 20])]"
    by (simp add: hooked_world_def hookAdd_def init_def)
  have 1: "plain (hook hooked_world)" by (simp add: h plain_def)
  show ?thesis
    using 1 hookRemove_returns [OF 1, of "''done''" "Some (Fn 20)"]
      hookRemove_returns [OF 1, of "''step''"]
    by (simp add: h)
qed

end
